theory Spec2Isabelle
  imports Main
begin

section \<open>The ServerConfig component (src/components/views/auth/ServerConfig.js)\<close>

text \<open>
  The component is a React class with a four-field state, two debounce timer handles and
  one asynchronous method, \<open>validateAndApplyServer\<close>, which suspends once, at the
  \<open>await\<close> of the discovery call. The embedding keeps the component and the part of
  its environment it talks to (the timer queue, the clock, the promises of the discovery
  calls that have not settled, and a trace of the calls it makes to the outside) in one
  record. Every method is a function on that record. The asynchronous method is cut at
  its one suspension point: \<open>validateAndApplyServer\<close> is the part that runs
  synchronously when the method is called, \<open>validateAndApplyServer_settled\<close> is the
  part that runs when the awaited promise settles.

  \<open>setState\<close> is applied at once. No method of the source reads \<open>this.state\<close>
  after a \<open>setState\<close> in the same synchronous run, so batching the update to the end
  of the run gives the same component after every event.
\<close>

subsection \<open>Data\<close>

text \<open>
  \<open>ValidatedServerConfig\<close> is declared in utils/AutoDiscoveryUtils; the component reads
  its \<open>hsUrl\<close> and \<open>isUrl\<close> only. The other validated fields are the extension part of
  the record scheme.
\<close>

record ValidatedServerConfig =
  hsUrl :: string
  isUrl :: string

type_synonym 'z config = "'z ValidatedServerConfig_scheme"

text \<open>The error a rejected discovery promise carries; \<open>translatedMessage\<close> is optional.\<close>

record DiscoveryError =
  translatedMessage :: "string option"

text \<open>
  The properties the methods read. \<open>onServerConfigChange\<close> is required and its calls are
  recorded in the trace; \<open>onAfterSubmit\<close> is optional, the field says whether it was
  supplied.
\<close>

record 'z Props =
  serverConfig :: "'z config"
  delayTimeMs :: nat
  onAfterSubmit :: bool

record State =
  busy :: bool
  errorText :: string
  hsUrl :: string
  isUrl :: string

text \<open>The calls the component makes to its collaborators, in the order it makes them.\<close>

datatype 'z effect =
    Discovery nat string string
  | OnServerConfigChange "'z config"
  | OnAfterSubmit
  | ConsoleError DiscoveryError

text \<open>
  \<open>props\<close>, \<open>state\<close>, \<open>hsTimeoutId\<close> and \<open>isTimeoutId\<close> are the fields of the
  instance (\<open>None\<close> is \<open>undefined\<close>). The rest is the environment:
  \<open>validated_server_config\<close> is what \<open>SdkConfig.get()\<close> holds under that key,
  \<open>timers\<close> the pending timeouts (identifier and due time), \<open>inflight\<close> the promises of
  discovery calls that \<open>validateAndApplyServer\<close> awaits, \<open>submitting\<close> those among
  them whose \<open>validateServer()\<close> is awaited by \<open>onSubmit\<close>, \<open>resuming\<close> the job
  queue: the calls of \<open>onSubmit\<close> whose awaited \<open>validateServer()\<close> has resolved and
  whose rest has not run yet, each with the value it resolved to, oldest first.
\<close>

record 'z component =
  props :: "'z Props"
  state :: State
  hsTimeoutId :: "nat option"
  isTimeoutId :: "nat option"
  validated_server_config :: "'z config"
  now :: nat
  timers :: "(nat \<times> nat) list"
  nextTimeoutId :: nat
  inflight :: "nat list"
  submitting :: "nat list"
  resuming :: "'z config option list"
  nextPromiseId :: nat
  trace :: "'z effect list"

text \<open>What an async method hands back to its caller when its synchronous part ends.\<close>

datatype 'a promise = Resolved 'a | Pending nat

subsection \<open>Collaborators\<close>

text \<open>
  Modelled from the spec: languageHandler's \<open>_t\<close> is not under src/. The spec treats
  translation as external and names the translated fallback by its English text, so the
  translation of a text is that text.
\<close>

definition t :: "string \<Rightarrow> string" where
  "t s = s"

text \<open>
  Modelled from the spec: AutoDiscoveryUtils.validateServerConfigWithStaticUrls is not under
  src/. It is an asynchronous function of the two URLs: the call returns a new promise and
  nothing of the component changes; the promise settles later, with a configuration or with
  an error.
\<close>

definition validateServerConfigWithStaticUrls ::
  "string \<Rightarrow> string \<Rightarrow> 'z component \<Rightarrow> nat \<times> 'z component" where
  "validateServerConfigWithStaticUrls hs is w =
     (nextPromiseId w,
      w\<lparr>nextPromiseId := Suc (nextPromiseId w),
        trace := trace w @ [Discovery (nextPromiseId w) hs is]\<rparr>)"

definition onServerConfigChange :: "'z config \<Rightarrow> 'z component \<Rightarrow> 'z component" where
  "onServerConfigChange c w = w\<lparr>trace := trace w @ [OnServerConfigChange c]\<rparr>"

definition console_error :: "DiscoveryError \<Rightarrow> 'z component \<Rightarrow> 'z component" where
  "console_error e w = w\<lparr>trace := trace w @ [ConsoleError e]\<rparr>"

text \<open>
  The browser's timers. An identifier is new at every call and greater than zero; a
  timeout that has fired or was cleared is no longer in the queue, and clearing it again
  does nothing.
\<close>

definition setTimeout :: "nat \<Rightarrow> 'z component \<Rightarrow> nat \<times> 'z component" where
  "setTimeout delay w =
     (nextTimeoutId w,
      w\<lparr>timers := timers w @ [(nextTimeoutId w, now w + delay)],
        nextTimeoutId := Suc (nextTimeoutId w)\<rparr>)"

definition clearTimeout :: "nat \<Rightarrow> 'z component \<Rightarrow> 'z component" where
  "clearTimeout i w = w\<lparr>timers := filter (\<lambda>tm. fst tm \<noteq> i) (timers w)\<rparr>"

subsection \<open>The methods\<close>

definition constructor :: "'z Props \<Rightarrow> 'z config \<Rightarrow> 'z component" where
  "constructor p dc =
     \<lparr>props = p,
      state = \<lparr>busy = False, errorText = '''',
               hsUrl = ValidatedServerConfig.hsUrl (serverConfig p),
               isUrl = ValidatedServerConfig.isUrl (serverConfig p)\<rparr>,
      hsTimeoutId = None, isTimeoutId = None,
      validated_server_config = dc,
      now = 0, timers = [], nextTimeoutId = 1,
      inflight = [], submitting = [], resuming = [], nextPromiseId = 0,
      trace = []\<rparr>"

text \<open>
  Lines 81 to 96: the default check, and on the other branch the \<open>setState\<close> and the
  call of the discovery function, whose promise the method then awaits.
\<close>

definition validateAndApplyServer ::
  "string \<Rightarrow> string \<Rightarrow> 'z component \<Rightarrow> 'z config option promise \<times> 'z component" where
  "validateAndApplyServer hs is w =
     (let defaultConfig = validated_server_config w in
      if ValidatedServerConfig.hsUrl defaultConfig = hs
         \<and> ValidatedServerConfig.isUrl defaultConfig = is
      then (Resolved (Some defaultConfig),
            onServerConfigChange defaultConfig
              (w\<lparr>state := (state w)\<lparr>busy := False, errorText := ''''\<rparr>\<rparr>))
      else (let w1 = w\<lparr>state := (state w)\<lparr>hsUrl := hs, isUrl := is,
                                           busy := True, errorText := ''''\<rparr>\<rparr>;
                (p, w2) = validateServerConfigWithStaticUrls hs is w1
            in (Pending p, w2\<lparr>inflight := inflight w2 @ [p]\<rparr>)))"

text \<open>
  Lines 99 to 114: what runs when the awaited promise settles, \<open>Inr\<close> with the result,
  \<open>Inl\<close> with the error that the \<open>catch\<close> receives. \<open>if (e.translatedMessage)\<close> is
  JavaScript truthiness: a missing message and the empty string both fail it. The value
  returned is the value the method's own promise resolves to, \<open>None\<close> for \<open>null\<close>.
\<close>

definition validateAndApplyServer_settled ::
  "DiscoveryError + 'z config \<Rightarrow> 'z component \<Rightarrow> 'z config option \<times> 'z component" where
  "validateAndApplyServer_settled r w =
     (case r of
        Inr result \<Rightarrow>
          (Some result,
           onServerConfigChange result
             (w\<lparr>state := (state w)\<lparr>busy := False, errorText := ''''\<rparr>\<rparr>))
      | Inl e \<Rightarrow>
          (let w1 = console_error e w;
               message = (case translatedMessage e of
                            Some m \<Rightarrow>
                              if m \<noteq> [] then m
                              else t ''Unable to validate homeserver/identity server''
                          | None \<Rightarrow> t ''Unable to validate homeserver/identity server'')
           in (None, w1\<lparr>state := (state w1)\<lparr>busy := False, errorText := message\<rparr>\<rparr>)))"

definition validateServer :: "'z component \<Rightarrow> 'z config option promise \<times> 'z component" where
  "validateServer w =
     validateAndApplyServer (State.hsUrl (state w)) (State.isUrl (state w)) w"

text \<open>
  \<open>componentWillReceiveProps\<close> drops the promise of \<open>validateAndApplyServer\<close>. React
  makes \<open>newProps\<close> the component's props after the hook has returned.
\<close>

definition componentWillReceiveProps :: "'z Props \<Rightarrow> 'z component \<Rightarrow> 'z component" where
  "componentWillReceiveProps newProps w =
     (if ValidatedServerConfig.hsUrl (serverConfig newProps) = State.hsUrl (state w)
         \<and> ValidatedServerConfig.isUrl (serverConfig newProps) = State.isUrl (state w)
      then w
      else snd (validateAndApplyServer
                  (ValidatedServerConfig.hsUrl (serverConfig newProps))
                  (ValidatedServerConfig.isUrl (serverConfig newProps)) w))"

definition receiveProps :: "'z Props \<Rightarrow> 'z component \<Rightarrow> 'z component" where
  "receiveProps newProps w = (componentWillReceiveProps newProps w)\<lparr>props := newProps\<rparr>"

text \<open>
  \<open>_waitThenInvoke\<close>: \<open>if (existingTimeoutId)\<close> fails for \<open>undefined\<close> and for 0.
  The function it schedules is the same at both call sites, a call of \<open>validateServer\<close>,
  so a queued timeout does not name it.
\<close>

definition waitThenInvoke :: "nat option \<Rightarrow> 'z component \<Rightarrow> nat \<times> 'z component" where
  "waitThenInvoke existingTimeoutId w =
     setTimeout (delayTimeMs (props w))
       (case existingTimeoutId of
          Some i \<Rightarrow> if i \<noteq> 0 then clearTimeout i w else w
        | None \<Rightarrow> w)"

definition onHomeserverBlur :: "'z component \<Rightarrow> 'z component" where
  "onHomeserverBlur w =
     (let (i, w1) = waitThenInvoke (hsTimeoutId w) w in w1\<lparr>hsTimeoutId := Some i\<rparr>)"

definition onHomeserverChange :: "string \<Rightarrow> 'z component \<Rightarrow> 'z component" where
  "onHomeserverChange v w = w\<lparr>state := (state w)\<lparr>hsUrl := v\<rparr>\<rparr>"

definition onIdentityServerBlur :: "'z component \<Rightarrow> 'z component" where
  "onIdentityServerBlur w =
     (let (i, w1) = waitThenInvoke (isTimeoutId w) w in w1\<lparr>isTimeoutId := Some i\<rparr>)"

definition onIdentityServerChange :: "string \<Rightarrow> 'z component \<Rightarrow> 'z component" where
  "onIdentityServerChange v w = w\<lparr>state := (state w)\<lparr>isUrl := v\<rparr>\<rparr>"

text \<open>
  \<open>onSubmit\<close> after its \<open>await\<close> (lines 143 to 147), given what \<open>validateServer()\<close>
  resolved to. A configuration object is truthy, \<open>null\<close> is not.
\<close>

definition onSubmit_resumed :: "'z config option \<Rightarrow> 'z component \<Rightarrow> 'z component" where
  "onSubmit_resumed result w =
     (case result of
        None \<Rightarrow> w
      | Some c \<Rightarrow>
          if onAfterSubmit (props w) then w\<lparr>trace := trace w @ [OnAfterSubmit]\<rparr> else w)"

text \<open>
  \<open>onSubmit\<close> up to its \<open>await\<close> (lines 140 to 142). The \<open>await\<close> always suspends.
  When \<open>validateServer()\<close> has already resolved, the rest of \<open>onSubmit\<close> is queued as a
  job with the value; otherwise \<open>onSubmit\<close> waits for the discovery promise of the attempt.
  Either way lines 143 to 147 run later, with the props the component has then.
\<close>

definition onSubmit :: "'z component \<Rightarrow> 'z component" where
  "onSubmit w =
     (case validateServer w of
        (Resolved result, w1) \<Rightarrow> w1\<lparr>resuming := resuming w1 @ [result]\<rparr>
      | (Pending p, w1) \<Rightarrow> w1\<lparr>submitting := submitting w1 @ [p]\<rparr>)"

subsection \<open>The event loop\<close>

text \<open>
  A timeout fires when it is queued and due: it leaves the queue and its function, a call
  of \<open>validateServer\<close> whose promise is dropped, runs.
\<close>

definition fireTimeout :: "nat \<Rightarrow> 'z component \<Rightarrow> 'z component" where
  "fireTimeout i w =
     (if \<exists>tm \<in> set (timers w). fst tm = i \<and> snd tm \<le> now w
      then snd (validateServer (clearTimeout i w))
      else w)"

text \<open>
  A discovery promise settles once. The rest of \<open>validateAndApplyServer\<close> runs; with it
  the promise of \<open>validateServer()\<close> resolves, and when \<open>onSubmit\<close> awaits this attempt
  the rest of \<open>onSubmit\<close> is queued as a job with the value.
\<close>

definition settle :: "nat \<Rightarrow> DiscoveryError + 'z config \<Rightarrow> 'z component \<Rightarrow> 'z component" where
  "settle p r w =
     (if p \<in> set (inflight w)
      then (let (result, w1) =
                  validateAndApplyServer_settled r (w\<lparr>inflight := removeAll p (inflight w)\<rparr>)
            in if p \<in> set (submitting w1)
               then w1\<lparr>submitting := removeAll p (submitting w1),
                       resuming := resuming w1 @ [result]\<rparr>
               else w1)
      else w)"

text \<open>
  The oldest job of the queue runs: the rest of one call of \<open>onSubmit\<close>. The browser runs
  the queued jobs before the next timeout or input event, but a re-render of the owner,
  and with it \<open>componentWillReceiveProps\<close> and new props, can come before a job, and so
  can the continuation of another attempt that settled in the same turn. The events below
  may come in any order; what holds for every order holds for the orders of the browser.
\<close>

definition resume :: "'z component \<Rightarrow> 'z component" where
  "resume w =
     (case resuming w of
        [] \<Rightarrow> w
      | result # rest \<Rightarrow> onSubmit_resumed result (w\<lparr>resuming := rest\<rparr>))"

datatype 'z event =
    HomeserverChange string
  | HomeserverBlur
  | IdentityServerChange string
  | IdentityServerBlur
  | Submit
  | ReceiveProps "'z Props"
  | Elapse nat
  | Timeout nat
  | Settle nat "DiscoveryError + 'z config"
  | Resume

fun step :: "'z component \<Rightarrow> 'z event \<Rightarrow> 'z component" where
  "step w (HomeserverChange v) = onHomeserverChange v w"
| "step w HomeserverBlur = onHomeserverBlur w"
| "step w (IdentityServerChange v) = onIdentityServerChange v w"
| "step w IdentityServerBlur = onIdentityServerBlur w"
| "step w Submit = onSubmit w"
| "step w (ReceiveProps p) = receiveProps p w"
| "step w (Elapse d) = w\<lparr>now := now w + d\<rparr>"
| "step w (Timeout i) = fireTimeout i w"
| "step w (Settle p r) = settle p r w"
| "step w Resume = resume w"

definition run :: "'z event list \<Rightarrow> 'z component \<Rightarrow> 'z component" where
  "run evs w = foldl step w evs"

inductive reachable :: "'z component \<Rightarrow> bool" where
  reachable_init: "reachable (constructor p dc)"
| reachable_step: "reachable w \<Longrightarrow> reachable (step w ev)"

subsection \<open>Reading the trace\<close>

text \<open>The discovery calls, the owner callback's arguments and the number of after-submit
  calls of a trace, each in the order of the trace.\<close>

fun discoveries :: "'z effect list \<Rightarrow> (nat \<times> string \<times> string) list" where
  "discoveries [] = []"
| "discoveries (Discovery p hs is # es) = (p, hs, is) # discoveries es"
| "discoveries (e # es) = discoveries es"

fun configChanges :: "'z effect list \<Rightarrow> 'z config list" where
  "configChanges [] = []"
| "configChanges (OnServerConfigChange c # es) = c # configChanges es"
| "configChanges (e # es) = configChanges es"

fun afterSubmits :: "'z effect list \<Rightarrow> nat" where
  "afterSubmits [] = 0"
| "afterSubmits (OnAfterSubmit # es) = Suc (afterSubmits es)"
| "afterSubmits (e # es) = afterSubmits es"

section \<open>Examples\<close>

text \<open>
  The inputs at which the theorems below are applied. \<open>matrixOrg\<close> is the default
  configuration, \<open>mounted\<close> a component constructed on it, \<open>edited\<close> the same after the
  user typed another homeserver, \<open>validating\<close> the same after its owner passed another
  configuration; \<open>debounced\<close> has a delay of 500 ms; \<open>noAfterSubmit\<close> are props
  without the after-submit callback. The two races start two validations and let the
  second one settle first.
\<close>

definition matrixOrg :: ValidatedServerConfig where
  "matrixOrg = \<lparr>ValidatedServerConfig.hsUrl = ''https://matrix.org'', ValidatedServerConfig.isUrl = ''https://vector.im''\<rparr>"

definition customExample :: ValidatedServerConfig where
  "customExample = \<lparr>ValidatedServerConfig.hsUrl = ''https://custom.example'', ValidatedServerConfig.isUrl = ''https://vector.im''\<rparr>"

definition otherExample :: ValidatedServerConfig where
  "otherExample = \<lparr>ValidatedServerConfig.hsUrl = ''https://other.example'', ValidatedServerConfig.isUrl = ''https://vector.im''\<rparr>"

definition propsOf :: "ValidatedServerConfig \<Rightarrow> unit Props" where
  "propsOf c = \<lparr>serverConfig = c, delayTimeMs = 0, onAfterSubmit = True\<rparr>"

definition mounted :: "unit component" where
  "mounted = constructor (propsOf matrixOrg) matrixOrg"

definition badServer :: DiscoveryError where
  "badServer = \<lparr>translatedMessage = Some ''Bad server''\<rparr>"

definition emptyMessage :: DiscoveryError where
  "emptyMessage = \<lparr>translatedMessage = Some ''''\<rparr>"

definition edited :: "unit component" where
  "edited = onHomeserverChange ''https://custom.example'' mounted"

definition validating :: "unit component" where
  "validating = step mounted (ReceiveProps (propsOf customExample))"

definition raceFailsLast :: "unit component" where
  "raceFailsLast =
     run [ReceiveProps (propsOf customExample), ReceiveProps (propsOf otherExample),
          Settle 1 (Inr otherExample), Settle 0 (Inl badServer)] mounted"

definition raceSucceedsLast :: "unit component" where
  "raceSucceedsLast =
     run [ReceiveProps (propsOf customExample), ReceiveProps (propsOf otherExample),
          Settle 1 (Inr otherExample), Settle 0 (Inr customExample)] mounted"

definition debounced :: "unit component" where
  "debounced = constructor \<lparr>serverConfig = matrixOrg, delayTimeMs = 500, onAfterSubmit = True\<rparr> matrixOrg"

definition debouncedEdited :: "unit component" where
  "debouncedEdited = step debounced (HomeserverChange ''https://custom.example'')"

definition noAfterSubmit :: "unit Props" where
  "noAfterSubmit = \<lparr>serverConfig = matrixOrg, delayTimeMs = 0, onAfterSubmit = False\<rparr>"

section \<open>Lemmas\<close>

subsection \<open>Traces and examples\<close>

lemma discoveries_append: "discoveries (xs @ ys) = discoveries xs @ discoveries ys"
  by (induction xs rule: discoveries.induct) simp_all

lemma configChanges_append: "configChanges (xs @ ys) = configChanges xs @ configChanges ys"
  by (induction xs rule: configChanges.induct) simp_all

lemma afterSubmits_append: "afterSubmits (xs @ ys) = afterSubmits xs + afterSubmits ys"
  by (induction xs rule: afterSubmits.induct) simp_all

lemmas example_defs = matrixOrg_def customExample_def otherExample_def propsOf_def mounted_def
  badServer_def emptyMessage_def constructor_def

lemmas method_defs = validateAndApplyServer_def validateAndApplyServer_settled_def
  validateServerConfigWithStaticUrls_def onServerConfigChange_def console_error_def
  validateServer_def componentWillReceiveProps_def receiveProps_def
  onSubmit_def onSubmit_resumed_def settle_def resume_def t_def Let_def

lemmas run_defs = run_def receiveProps_def componentWillReceiveProps_def
  validateAndApplyServer_def validateAndApplyServer_settled_def
  validateServerConfigWithStaticUrls_def onServerConfigChange_def console_error_def
  settle_def resume_def onSubmit_def onSubmit_resumed_def validateServer_def t_def Let_def

lemmas blur_defs = onHomeserverBlur_def onIdentityServerBlur_def waitThenInvoke_def
  setTimeout_def clearTimeout_def fireTimeout_def validateServer_def

lemma mounted_simps:
  "state mounted = \<lparr>busy = False, errorText = '''', hsUrl = ''https://matrix.org'', isUrl = ''https://vector.im''\<rparr>"
  "validated_server_config mounted = matrixOrg"
  "trace mounted = []"
  "props mounted = propsOf matrixOrg"
  "inflight mounted = []" "submitting mounted = []" "nextPromiseId mounted = 0"
  by (simp_all add: example_defs)

lemma edited_simps:
  "state edited = \<lparr>busy = False, errorText = '''', hsUrl = ''https://custom.example'', isUrl = ''https://vector.im''\<rparr>"
  "validated_server_config edited = matrixOrg"
  "trace edited = []"
  "props edited = propsOf matrixOrg"
  "inflight edited = []" "submitting edited = []" "nextPromiseId edited = 0"
  by (simp_all add: edited_def onHomeserverChange_def example_defs)

lemma validating_simps:
  "state validating = \<lparr>busy = True, errorText = '''', hsUrl = ''https://custom.example'', isUrl = ''https://vector.im''\<rparr>"
  by (simp add: validating_def receiveProps_def componentWillReceiveProps_def
      validateAndApplyServer_def validateServerConfigWithStaticUrls_def Let_def example_defs)

lemma debouncedEdited_simps:
  "nextTimeoutId debouncedEdited = 1" "delayTimeMs (props debouncedEdited) = 500"
  "trace debouncedEdited = []" "nextPromiseId debouncedEdited = 0"
  "validated_server_config debouncedEdited = matrixOrg"
  "state debouncedEdited = \<lparr>busy = False, errorText = '''', hsUrl = ''https://custom.example'', isUrl = ''https://vector.im''\<rparr>"
  by (simp_all add: debouncedEdited_def debounced_def onHomeserverChange_def example_defs)

lemma debounced_simps:
  "nextTimeoutId debounced = 1" "delayTimeMs (props debounced) = 500"
  "trace debounced = []" "nextPromiseId debounced = 0"
  "validated_server_config debounced = matrixOrg"
  "state debounced = \<lparr>busy = False, errorText = '''', hsUrl = ''https://matrix.org'', isUrl = ''https://vector.im''\<rparr>"
  by (simp_all add: debounced_def example_defs)

subsection \<open>What each method leaves alone\<close>

lemma validateAndApplyServer_custom:
  assumes "\<not> (ValidatedServerConfig.hsUrl (validated_server_config w) = hs
              \<and> ValidatedServerConfig.isUrl (validated_server_config w) = is)"
  shows "snd (validateAndApplyServer hs is w)
         = w\<lparr>state := \<lparr>busy = True, errorText = '''', hsUrl = hs, isUrl = is\<rparr>,
             nextPromiseId := Suc (nextPromiseId w),
             trace := trace w @ [Discovery (nextPromiseId w) hs is],
             inflight := inflight w @ [nextPromiseId w]\<rparr>"
  using assms
  by (auto simp add: validateAndApplyServer_def validateServerConfigWithStaticUrls_def Let_def)

lemma validateAndApplyServer_frame:
  "nextTimeoutId (snd (validateAndApplyServer hs is w)) = nextTimeoutId w"
  "hsTimeoutId (snd (validateAndApplyServer hs is w)) = hsTimeoutId w"
  "isTimeoutId (snd (validateAndApplyServer hs is w)) = isTimeoutId w"
  by (simp_all add: validateAndApplyServer_def validateServerConfigWithStaticUrls_def
      onServerConfigChange_def Let_def)

lemma settled_state:
  "state (snd (validateAndApplyServer_settled r w))
   = (state w)\<lparr>busy := False, errorText := errorText (state (snd (validateAndApplyServer_settled r w0)))\<rparr>"
  by (cases r) (simp_all add: validateAndApplyServer_settled_def onServerConfigChange_def
      console_error_def Let_def)

lemma settled_configChanges:
  "configChanges (trace (snd (validateAndApplyServer_settled r w)))
   = configChanges (trace w) @ (case r of Inl e \<Rightarrow> [] | Inr c \<Rightarrow> [c])"
  by (cases r) (simp_all add: validateAndApplyServer_settled_def onServerConfigChange_def
      console_error_def Let_def configChanges_append)

lemma settled_frame:
  "inflight (snd (validateAndApplyServer_settled r w)) = inflight w"
  "submitting (snd (validateAndApplyServer_settled r w)) = submitting w"
  "props (snd (validateAndApplyServer_settled r w)) = props w"
  "timers (snd (validateAndApplyServer_settled r w)) = timers w"
  "validated_server_config (snd (validateAndApplyServer_settled r w)) = validated_server_config w"
  by (cases r; simp add: validateAndApplyServer_settled_def onServerConfigChange_def
      console_error_def Let_def)+

lemma settled_timeout_frame:
  "nextTimeoutId (snd (validateAndApplyServer_settled r w)) = nextTimeoutId w"
  "hsTimeoutId (snd (validateAndApplyServer_settled r w)) = hsTimeoutId w"
  "isTimeoutId (snd (validateAndApplyServer_settled r w)) = isTimeoutId w"
  by (cases r; simp add: validateAndApplyServer_settled_def onServerConfigChange_def
      console_error_def Let_def)+

lemma onSubmit_resumed_frame:
  "state (onSubmit_resumed result w) = state w"
  "inflight (onSubmit_resumed result w) = inflight w"
  "configChanges (trace (onSubmit_resumed result w)) = configChanges (trace w)"
  "discoveries (trace (onSubmit_resumed result w)) = discoveries (trace w)"
  by (simp_all add: onSubmit_resumed_def configChanges_append discoveries_append split: option.split)

lemma onSubmit_resumed_timeout_frame:
  "nextTimeoutId (onSubmit_resumed result w) = nextTimeoutId w"
  "hsTimeoutId (onSubmit_resumed result w) = hsTimeoutId w"
  "isTimeoutId (onSubmit_resumed result w) = isTimeoutId w"
  by (simp_all add: onSubmit_resumed_def split: option.split)

lemma resume_frame:
  "state (resume w) = state w"
  "nextTimeoutId (resume w) = nextTimeoutId w"
  "hsTimeoutId (resume w) = hsTimeoutId w"
  "isTimeoutId (resume w) = isTimeoutId w"
  by (simp_all add: resume_def onSubmit_resumed_frame(1) onSubmit_resumed_timeout_frame
      split: list.split)

lemma onSubmit_state: "state (onSubmit w) = state (snd (validateServer w))"
  by (simp add: onSubmit_def onSubmit_resumed_frame(1) split: prod.split promise.split)

lemma onSubmit_timeout_frame:
  "nextTimeoutId (onSubmit w) = nextTimeoutId w"
  "hsTimeoutId (onSubmit w) = hsTimeoutId w"
  "isTimeoutId (onSubmit w) = isTimeoutId w"
  using validateAndApplyServer_frame [of "State.hsUrl (state w)" "State.isUrl (state w)" w]
  by (cases "validateAndApplyServer (State.hsUrl (state w)) (State.isUrl (state w)) w";
      cases "fst (validateAndApplyServer (State.hsUrl (state w)) (State.isUrl (state w)) w)";
      simp add: onSubmit_def validateServer_def onSubmit_resumed_timeout_frame)+

lemma settle_inflight:
  "p \<in> set (inflight w) \<Longrightarrow> state (settle p r w)
     = (state w)\<lparr>busy := False, errorText := errorText (state (snd (validateAndApplyServer_settled r w0)))\<rparr>"
  "p \<in> set (inflight w) \<Longrightarrow> inflight (settle p r w) = removeAll p (inflight w)"
  "p \<in> set (inflight w) \<Longrightarrow> configChanges (trace (settle p r w))
     = configChanges (trace w) @ (case r of Inl e \<Rightarrow> [] | Inr c \<Rightarrow> [c])"
  using settled_state [of r "w\<lparr>inflight := removeAll p (inflight w)\<rparr>" w0]
    settled_configChanges [of r "w\<lparr>inflight := removeAll p (inflight w)\<rparr>"]
    settled_frame(1) [of r "w\<lparr>inflight := removeAll p (inflight w)\<rparr>"]
  by (simp_all add: settle_def case_prod_unfold Let_def onSubmit_resumed_frame)

lemma settle_timeout_frame:
  "nextTimeoutId (settle p r w) = nextTimeoutId w"
  "hsTimeoutId (settle p r w) = hsTimeoutId w"
  "isTimeoutId (settle p r w) = isTimeoutId w"
  by (simp_all add: settle_def case_prod_unfold Let_def onSubmit_resumed_timeout_frame
      settled_timeout_frame)

lemma waitThenInvoke_state: "state (snd (waitThenInvoke i w)) = state w"
  by (simp add: waitThenInvoke_def setTimeout_def clearTimeout_def split: option.split)

lemma blur_state:
  "state (onHomeserverBlur w) = state w" "state (onIdentityServerBlur w) = state w"
  using waitThenInvoke_state [of "hsTimeoutId w" w] waitThenInvoke_state [of "isTimeoutId w" w]
  by (simp_all add: onHomeserverBlur_def onIdentityServerBlur_def case_prod_unfold Let_def)

lemma onHomeserverBlur_eq:
  "onHomeserverBlur w
   = w\<lparr>hsTimeoutId := Some (nextTimeoutId w),
       timers := filter (\<lambda>tm. hsTimeoutId w = Some 0 \<or> Some (fst tm) \<noteq> hsTimeoutId w) (timers w)
                   @ [(nextTimeoutId w, now w + delayTimeMs (props w))],
       nextTimeoutId := Suc (nextTimeoutId w)\<rparr>"
  by (cases "hsTimeoutId w")
     (simp_all add: onHomeserverBlur_def waitThenInvoke_def setTimeout_def clearTimeout_def)

lemma onIdentityServerBlur_eq:
  "onIdentityServerBlur w
   = w\<lparr>isTimeoutId := Some (nextTimeoutId w),
       timers := filter (\<lambda>tm. isTimeoutId w = Some 0 \<or> Some (fst tm) \<noteq> isTimeoutId w) (timers w)
                   @ [(nextTimeoutId w, now w + delayTimeMs (props w))],
       nextTimeoutId := Suc (nextTimeoutId w)\<rparr>"
  by (cases "isTimeoutId w")
     (simp_all add: onIdentityServerBlur_def waitThenInvoke_def setTimeout_def clearTimeout_def)

lemma fireTimeout_timeout_frame:
  "nextTimeoutId (fireTimeout i w) = nextTimeoutId w"
  "hsTimeoutId (fireTimeout i w) = hsTimeoutId w"
  "isTimeoutId (fireTimeout i w) = isTimeoutId w"
  by (simp_all add: fireTimeout_def validateServer_def validateAndApplyServer_frame clearTimeout_def)

lemma receiveProps_timeout_frame:
  "nextTimeoutId (receiveProps p w) = nextTimeoutId w"
  "hsTimeoutId (receiveProps p w) = hsTimeoutId w"
  "isTimeoutId (receiveProps p w) = isTimeoutId w"
  by (simp_all add: receiveProps_def componentWillReceiveProps_def validateAndApplyServer_frame)

text \<open>
  What the hook does on its two ordinary branches: nothing when the new URLs are the ones
  in the state, the slow path with the new URLs when they are neither those nor the default
  ones.
\<close>

lemma componentWillReceiveProps_same:
  "ValidatedServerConfig.hsUrl (serverConfig newProps) = State.hsUrl (state w)
   \<Longrightarrow> ValidatedServerConfig.isUrl (serverConfig newProps) = State.isUrl (state w)
   \<Longrightarrow> componentWillReceiveProps newProps w = w"
  by (simp add: componentWillReceiveProps_def)

lemma componentWillReceiveProps_custom:
  assumes "\<not> (ValidatedServerConfig.hsUrl (serverConfig newProps) = State.hsUrl (state w)
              \<and> ValidatedServerConfig.isUrl (serverConfig newProps) = State.isUrl (state w))"
      and "\<not> (ValidatedServerConfig.hsUrl (validated_server_config w) = ValidatedServerConfig.hsUrl (serverConfig newProps)
              \<and> ValidatedServerConfig.isUrl (validated_server_config w) = ValidatedServerConfig.isUrl (serverConfig newProps))"
  shows "state (componentWillReceiveProps newProps w)
         = \<lparr>busy = True, errorText = '''',
            hsUrl = ValidatedServerConfig.hsUrl (serverConfig newProps),
            isUrl = ValidatedServerConfig.isUrl (serverConfig newProps)\<rparr>"
    and "trace (componentWillReceiveProps newProps w)
         = trace w @ [Discovery (nextPromiseId w) (ValidatedServerConfig.hsUrl (serverConfig newProps))
                        (ValidatedServerConfig.isUrl (serverConfig newProps))]"
  using assms
  by (auto simp add: componentWillReceiveProps_def validateAndApplyServer_def
      validateServerConfigWithStaticUrls_def Let_def)

subsection \<open>The busy flag\<close>

lemma validateAndApplyServer_busy_inv:
  "busy (state (snd (validateAndApplyServer hs is w))) \<longrightarrow> errorText (state (snd (validateAndApplyServer hs is w))) = ''''"
  by (simp add: validateAndApplyServer_def validateServerConfigWithStaticUrls_def
      onServerConfigChange_def Let_def)

lemma validateAndApplyServer_settled_not_busy:
  "\<not> busy (state (snd (validateAndApplyServer_settled r w)))"
  by (simp add: validateAndApplyServer_settled_def onServerConfigChange_def console_error_def
      Let_def split: sum.split)

lemma settle_busy_inv:
  "busy (state w) \<longrightarrow> errorText (state w) = '''' \<Longrightarrow>
   busy (state (settle p r w)) \<longrightarrow> errorText (state (settle p r w)) = ''''"
  using validateAndApplyServer_settled_not_busy [of r "w\<lparr>inflight := removeAll p (inflight w)\<rparr>"]
  by (simp add: settle_def onSubmit_resumed_frame(1) case_prod_unfold Let_def)

lemma fireTimeout_busy_inv:
  "busy (state w) \<longrightarrow> errorText (state w) = '''' \<Longrightarrow>
   busy (state (fireTimeout i w)) \<longrightarrow> errorText (state (fireTimeout i w)) = ''''"
  using validateAndApplyServer_busy_inv [of "State.hsUrl (state (clearTimeout i w))"
      "State.isUrl (state (clearTimeout i w))" "clearTimeout i w"]
  by (simp add: fireTimeout_def validateServer_def)

lemma receiveProps_busy_inv:
  "busy (state w) \<longrightarrow> errorText (state w) = '''' \<Longrightarrow>
   busy (state (receiveProps p w)) \<longrightarrow> errorText (state (receiveProps p w)) = ''''"
  using validateAndApplyServer_busy_inv [of "ValidatedServerConfig.hsUrl (serverConfig p)"
      "ValidatedServerConfig.isUrl (serverConfig p)" w]
  by (simp add: receiveProps_def componentWillReceiveProps_def)

lemma step_busy_inv:
  assumes "busy (state w) \<longrightarrow> errorText (state w) = ''''"
  shows "busy (state (step w ev)) \<longrightarrow> errorText (state (step w ev)) = ''''"
proof (cases ev)
  case (HomeserverChange v)
  with assms show ?thesis by (simp add: onHomeserverChange_def)
next
  case HomeserverBlur
  with assms show ?thesis by (simp add: blur_state)
next
  case (IdentityServerChange v)
  with assms show ?thesis by (simp add: onIdentityServerChange_def)
next
  case IdentityServerBlur
  with assms show ?thesis by (simp add: blur_state)
next
  case Submit
  then show ?thesis
    using validateAndApplyServer_busy_inv by (simp add: onSubmit_state validateServer_def)
next
  case (ReceiveProps p)
  with assms show ?thesis using receiveProps_busy_inv [of w p] by simp
next
  case (Elapse d)
  with assms show ?thesis by simp
next
  case (Timeout i)
  with assms show ?thesis using fireTimeout_busy_inv [of w i] by simp
next
  case (Settle p r)
  with assms show ?thesis using settle_busy_inv [of w p r] by simp
next
  case Resume
  with assms show ?thesis by (simp add: resume_frame)
qed

lemma reachable_busy_inv: "reachable w \<Longrightarrow> busy (state w) \<longrightarrow> errorText (state w) = ''''"
proof (induction rule: reachable.induct)
  case (reachable_init p dc)
  show ?case by (simp add: constructor_def)
next
  case (reachable_step w ev)
  from reachable_step.IH show ?case by (rule step_busy_inv)
qed

subsection \<open>Timeout identifiers\<close>

text \<open>
  The identifiers the browser hands out are positive, so the ones the component stores pass
  the truthiness test of \<open>_waitThenInvoke\<close>.
\<close>

lemma step_timeout_ids:
  assumes "0 < nextTimeoutId w \<and> hsTimeoutId w \<noteq> Some 0 \<and> isTimeoutId w \<noteq> Some 0"
  shows "0 < nextTimeoutId (step w ev) \<and> hsTimeoutId (step w ev) \<noteq> Some 0
         \<and> isTimeoutId (step w ev) \<noteq> Some 0"
  using assms
  by (cases ev)
     (simp_all add: onHomeserverChange_def onIdentityServerChange_def onHomeserverBlur_eq
       onIdentityServerBlur_eq onSubmit_timeout_frame receiveProps_timeout_frame
       fireTimeout_timeout_frame settle_timeout_frame resume_frame)

lemma reachable_timeout_ids:
  "reachable w \<Longrightarrow>
   0 < nextTimeoutId w \<and> hsTimeoutId w \<noteq> Some 0 \<and> isTimeoutId w \<noteq> Some 0"
proof (induction rule: reachable.induct)
  case (reachable_init p dc)
  show ?case by (simp add: constructor_def)
next
  case (reachable_step w ev)
  from reachable_step.IH show ?case by (rule step_timeout_ids)
qed

lemma fireTimeout_absent:
  "\<forall>tm \<in> set (timers w). fst tm \<noteq> i \<Longrightarrow> fireTimeout i w = w"
  by (auto simp add: fireTimeout_def)

lemma fireTimeout_due:
  "(i, due) \<in> set (timers w) \<Longrightarrow> due \<le> now w \<Longrightarrow>
   fireTimeout i w = snd (validateServer (clearTimeout i w))"
  by (auto simp add: fireTimeout_def)

lemma homeserver_blur_twice:
  assumes "0 < nextTimeoutId w" and "hsTimeoutId w \<noteq> Some 0"
  shows "step (step (step (step w HomeserverBlur) (Elapse d1)) HomeserverBlur) (Elapse d2)
         = w\<lparr>hsTimeoutId := Some (Suc (nextTimeoutId w)),
             timers := filter (\<lambda>tm. fst tm \<noteq> nextTimeoutId w)
                         (filter (\<lambda>tm. Some (fst tm) \<noteq> hsTimeoutId w) (timers w))
                       @ [(Suc (nextTimeoutId w), now w + d1 + delayTimeMs (props w))],
             nextTimeoutId := Suc (Suc (nextTimeoutId w)),
             now := now w + d1 + d2\<rparr>"
  using assms by (simp add: onHomeserverBlur_eq)

lemma identity_blur_twice:
  assumes "0 < nextTimeoutId w" and "isTimeoutId w \<noteq> Some 0"
  shows "step (step (step (step w IdentityServerBlur) (Elapse d1)) IdentityServerBlur) (Elapse d2)
         = w\<lparr>isTimeoutId := Some (Suc (nextTimeoutId w)),
             timers := filter (\<lambda>tm. fst tm \<noteq> nextTimeoutId w)
                         (filter (\<lambda>tm. Some (fst tm) \<noteq> isTimeoutId w) (timers w))
                       @ [(Suc (nextTimeoutId w), now w + d1 + delayTimeMs (props w))],
             nextTimeoutId := Suc (Suc (nextTimeoutId w)),
             now := now w + d1 + d2\<rparr>"
  using assms by (simp add: onIdentityServerBlur_eq)

lemma validateServer_trace:
  "trace (snd (validateServer w))
   = trace w
     @ (if ValidatedServerConfig.hsUrl (validated_server_config w) = State.hsUrl (state w)
           \<and> ValidatedServerConfig.isUrl (validated_server_config w) = State.isUrl (state w)
        then [OnServerConfigChange (validated_server_config w)]
        else [Discovery (nextPromiseId w) (State.hsUrl (state w)) (State.isUrl (state w))])"
  by (simp add: validateServer_def validateAndApplyServer_def validateServerConfigWithStaticUrls_def
      onServerConfigChange_def Let_def)

lemma validateServer_state:
  "state (snd (validateServer w))
   = (state w)\<lparr>busy := \<not> (ValidatedServerConfig.hsUrl (validated_server_config w) = State.hsUrl (state w)
                           \<and> ValidatedServerConfig.isUrl (validated_server_config w) = State.isUrl (state w)),
               errorText := ''''\<rparr>"
  by (simp add: validateServer_def validateAndApplyServer_def validateServerConfigWithStaticUrls_def
      onServerConfigChange_def Let_def)

lemma second_timeout_validates:
  assumes "timers w2 = filter (\<lambda>tm. fst tm \<noteq> n) ts @ [(Suc n, due)]" and "due \<le> now w2"
  shows "trace (step (step w2 (Timeout n)) (Timeout (Suc n)))
         = trace w2
           @ (if ValidatedServerConfig.hsUrl (validated_server_config w2) = State.hsUrl (state w2)
                 \<and> ValidatedServerConfig.isUrl (validated_server_config w2) = State.isUrl (state w2)
              then [OnServerConfigChange (validated_server_config w2)]
              else [Discovery (nextPromiseId w2) (State.hsUrl (state w2)) (State.isUrl (state w2))])
         \<and> state (step (step w2 (Timeout n)) (Timeout (Suc n)))
           = (state w2)\<lparr>busy := \<not> (ValidatedServerConfig.hsUrl (validated_server_config w2) = State.hsUrl (state w2)
                           \<and> ValidatedServerConfig.isUrl (validated_server_config w2) = State.isUrl (state w2)),
               errorText := ''''\<rparr>"
proof -
  have a: "fireTimeout n w2 = w2"
    by (rule fireTimeout_absent) (simp add: assms(1))
  have b: "fireTimeout (Suc n) w2 = snd (validateServer (clearTimeout (Suc n) w2))"
    by (rule fireTimeout_due [where due = due]) (simp_all add: assms)
  show ?thesis
    using validateServer_trace [of "clearTimeout (Suc n) w2"]
      validateServer_state [of "clearTimeout (Suc n) w2"]
    by (simp add: a b clearTimeout_def)
qed

section \<open>Validation\<close>

text \<open>
  C1. Called with the two URLs of the default configuration, \<open>validateAndApplyServer\<close>
  resolves at once to the default configuration. The component it leaves differs from the
  one it found in \<open>busy\<close> (false), \<open>errorText\<close> (empty) and one more entry of the
  trace, the owner callback called with the default configuration: no discovery call is
  recorded and no promise is awaited.
\<close>

theorem default_urls_fast_path:
  "validateAndApplyServer (ValidatedServerConfig.hsUrl (validated_server_config w))
       (ValidatedServerConfig.isUrl (validated_server_config w)) w
   = (Resolved (Some (validated_server_config w)),
      w\<lparr>state := (state w)\<lparr>busy := False, errorText := ''''\<rparr>,
        trace := trace w @ [OnServerConfigChange (validated_server_config w)]\<rparr>)"
  by (simp add: validateAndApplyServer_def onServerConfigChange_def Let_def)

text \<open>
  C2. Called with URLs that are not both the default ones, \<open>validateAndApplyServer\<close>
  first sets \<open>busy\<close> and clears \<open>errorText\<close> (and stores the URLs), then calls the
  discovery function once, in the component so updated, with those URLs, and awaits its
  promise. When the promise resolves, in whatever component \<open>w'\<close> it finds, \<open>busy\<close> is
  cleared, \<open>errorText\<close> is empty, the owner callback is called once with the result and
  the result is returned. When it rejects, the owner callback is not called. From call to
  settlement the attempt adds to the trace the discovery call and then the callback (on
  success) or the logged error (on failure), and nothing else.
\<close>

theorem custom_urls_slow_path:
  assumes "\<not> (ValidatedServerConfig.hsUrl (validated_server_config w) = hs
              \<and> ValidatedServerConfig.isUrl (validated_server_config w) = is)"
  shows "validateAndApplyServer hs is w
         = (Pending (nextPromiseId w),
            (snd (validateServerConfigWithStaticUrls hs is
                   (w\<lparr>state := (state w)\<lparr>hsUrl := hs, isUrl := is, busy := True, errorText := ''''\<rparr>\<rparr>)))
              \<lparr>inflight := inflight w @ [nextPromiseId w]\<rparr>)
       \<and> busy (state (snd (validateAndApplyServer hs is w)))
       \<and> errorText (state (snd (validateAndApplyServer hs is w))) = ''''
       \<and> trace (snd (validateAndApplyServer hs is w)) = trace w @ [Discovery (nextPromiseId w) hs is]
       \<and> validateAndApplyServer_settled (Inr result) w'
          = (Some result,
             w'\<lparr>state := (state w')\<lparr>busy := False, errorText := ''''\<rparr>,
                trace := trace w' @ [OnServerConfigChange result]\<rparr>)
       \<and> trace (snd (validateAndApplyServer_settled (Inr result) (snd (validateAndApplyServer hs is w))))
          = trace w @ [Discovery (nextPromiseId w) hs is, OnServerConfigChange result]
       \<and> configChanges (trace (snd (validateAndApplyServer_settled (Inl e) w'))) = configChanges (trace w')
       \<and> trace (snd (validateAndApplyServer_settled (Inl e) (snd (validateAndApplyServer hs is w))))
          = trace w @ [Discovery (nextPromiseId w) hs is, ConsoleError e]"
  using assms
  by (simp add: validateAndApplyServer_def validateAndApplyServer_settled_def
      validateServerConfigWithStaticUrls_def onServerConfigChange_def console_error_def
      configChanges_append Let_def)

text \<open>The slow path at the mounted component, for a custom homeserver.\<close>

theorem custom_urls_slow_path_witness:
  "\<not> (ValidatedServerConfig.hsUrl (validated_server_config mounted) = ''https://custom.example''
       \<and> ValidatedServerConfig.isUrl (validated_server_config mounted) = ''https://vector.im'')
   \<and> busy (state (snd (validateAndApplyServer ''https://custom.example'' ''https://vector.im'' mounted)))
   \<and> errorText (state (snd (validateAndApplyServer ''https://custom.example'' ''https://vector.im'' mounted))) = ''''
   \<and> trace (snd (validateAndApplyServer_settled (Inr customExample)
        (snd (validateAndApplyServer ''https://custom.example'' ''https://vector.im'' mounted))))
      = trace mounted @ [Discovery (nextPromiseId mounted) ''https://custom.example'' ''https://vector.im'',
           OnServerConfigChange customExample]"
proof -
  have h: "\<not> (ValidatedServerConfig.hsUrl (validated_server_config mounted) = ''https://custom.example''
       \<and> ValidatedServerConfig.isUrl (validated_server_config mounted) = ''https://vector.im'')"
    by (simp add: example_defs)
  show ?thesis
    using h custom_urls_slow_path [OF h, of customExample mounted badServer] by blast
qed

text \<open>
  C3, as amended. When the discovery promise rejects with \<open>e\<close>, the rest of
  \<open>validateAndApplyServer\<close> logs \<open>e\<close>, clears \<open>busy\<close>, and sets \<open>errorText\<close> to
  the translated message of \<open>e\<close> when \<open>e\<close> has one and it is not the empty string, to
  the fallback text otherwise. It returns \<open>null\<close> (there is no other way out of the
  \<open>catch\<close>), the owner callback is not called, and a promise that resolves never yields
  \<open>null\<close>.
\<close>

theorem failure_sets_error_text:
  "validateAndApplyServer_settled (Inl e) w
   = (None,
      w\<lparr>state := (state w)\<lparr>busy := False,
                            errorText := (case translatedMessage e of
                                            None \<Rightarrow> ''Unable to validate homeserver/identity server''
                                          | Some m \<Rightarrow> if m = '''' then ''Unable to validate homeserver/identity server'' else m)\<rparr>,
        trace := trace w @ [ConsoleError e]\<rparr>)
   \<and> configChanges (trace (snd (validateAndApplyServer_settled (Inl e) w))) = configChanges (trace w)
   \<and> fst (validateAndApplyServer_settled (Inr result) w) = Some result"
  by (simp add: validateAndApplyServer_settled_def console_error_def onServerConfigChange_def
      t_def Let_def configChanges_append split: option.split)

text \<open>
  C3 as stated fails for an error whose translated message is present and empty: the
  truthiness test of line 105 rejects it and the fallback text is shown.
\<close>

theorem empty_translated_message_counterexample:
  "translatedMessage emptyMessage = Some ''''
   \<and> errorText (state (snd (validateAndApplyServer_settled (Inl emptyMessage) mounted)))
      = ''Unable to validate homeserver/identity server''
   \<and> errorText (state (snd (validateAndApplyServer_settled (Inl emptyMessage) mounted)))
      \<noteq> the (translatedMessage emptyMessage)"
  by (simp add: example_defs validateAndApplyServer_settled_def console_error_def t_def)

section \<open>Overlapping attempts\<close>

text \<open>
  C4, as amended. The component keeps no count of its attempts and the rest of
  \<open>validateAndApplyServer\<close> does not look at which attempt it finishes. When two attempts
  are started one after the other and both settle, in either order, \<open>busy\<close> is false and
  \<open>errorText\<close> is the one the attempt that settled last would have produced alone; the
  owner callback has been called for each attempt that succeeded, in the order of
  settlement, so its last call is that of the successful attempt that settled last. The
  URLs in the state are those of the attempt started last.
\<close>

theorem last_settled_attempt_wins:
  assumes "\<not> (ValidatedServerConfig.hsUrl (validated_server_config w) = hs1
              \<and> ValidatedServerConfig.isUrl (validated_server_config w) = is1)"
      and "\<not> (ValidatedServerConfig.hsUrl (validated_server_config w) = hs2
              \<and> ValidatedServerConfig.isUrl (validated_server_config w) = is2)"
      and "w2 = snd (validateAndApplyServer hs2 is2 (snd (validateAndApplyServer hs1 is1 w)))"
      and "p1 = nextPromiseId w" and "p2 = Suc (nextPromiseId w)"
  shows "state (settle p2 r2 (settle p1 r1 w2))
           = \<lparr>busy = False, errorText = errorText (state (snd (validateAndApplyServer_settled r2 w))),
              hsUrl = hs2, isUrl = is2\<rparr>
       \<and> state (settle p1 r1 (settle p2 r2 w2))
           = \<lparr>busy = False, errorText = errorText (state (snd (validateAndApplyServer_settled r1 w))),
              hsUrl = hs2, isUrl = is2\<rparr>
       \<and> configChanges (trace (settle p2 r2 (settle p1 r1 w2)))
           = configChanges (trace w) @ (case r1 of Inl e \<Rightarrow> [] | Inr c \<Rightarrow> [c])
               @ (case r2 of Inl e \<Rightarrow> [] | Inr c \<Rightarrow> [c])
       \<and> configChanges (trace (settle p1 r1 (settle p2 r2 w2)))
           = configChanges (trace w) @ (case r2 of Inl e \<Rightarrow> [] | Inr c \<Rightarrow> [c])
               @ (case r1 of Inl e \<Rightarrow> [] | Inr c \<Rightarrow> [c])"
proof -
  have w2: "w2 = w\<lparr>state := \<lparr>busy = True, errorText = '''', hsUrl = hs2, isUrl = is2\<rparr>,
             nextPromiseId := Suc (Suc (nextPromiseId w)),
             trace := trace w @ [Discovery p1 hs1 is1, Discovery p2 hs2 is2],
             inflight := inflight w @ [p1, p2]\<rparr>"
    using assms by (simp add: validateAndApplyServer_custom)
  have in1: "p1 \<in> set (inflight w2)" and in2: "p2 \<in> set (inflight w2)"
    by (simp_all add: w2)
  have ne: "p1 \<noteq> p2" using assms by simp
  have in21: "p2 \<in> set (inflight (settle p1 r1 w2))"
    using in1 in2 ne by (simp add: settle_inflight(2))
  have in12: "p1 \<in> set (inflight (settle p2 r2 w2))"
    using in1 in2 ne by (simp add: settle_inflight(2))
  have cc: "configChanges (trace w2) = configChanges (trace w)"
    by (simp add: w2 configChanges_append)
  have st: "state w2 = \<lparr>busy = True, errorText = '''', hsUrl = hs2, isUrl = is2\<rparr>"
    by (simp add: w2)
  show ?thesis
    using settle_inflight(1) [OF in21, of r2 w] settle_inflight(1) [OF in1, of r1 w]
      settle_inflight(1) [OF in12, of r1 w] settle_inflight(1) [OF in2, of r2 w]
      settle_inflight(3) [OF in21, of r2] settle_inflight(3) [OF in1, of r1]
      settle_inflight(3) [OF in12, of r1] settle_inflight(3) [OF in2, of r2]
    by (simp add: cc st)
qed

text \<open>Two attempts at the mounted component; the first fails, the second succeeds.\<close>

theorem last_settled_attempt_wins_witness:
  "\<not> (ValidatedServerConfig.hsUrl (validated_server_config mounted) = ''https://custom.example''
       \<and> ValidatedServerConfig.isUrl (validated_server_config mounted) = ''https://vector.im'')
   \<and> \<not> (ValidatedServerConfig.hsUrl (validated_server_config mounted) = ''https://other.example''
       \<and> ValidatedServerConfig.isUrl (validated_server_config mounted) = ''https://vector.im'')
   \<and> state (settle 0 (Inl badServer) (settle 1 (Inr otherExample)
        (snd (validateAndApplyServer ''https://other.example'' ''https://vector.im''
           (snd (validateAndApplyServer ''https://custom.example'' ''https://vector.im'' mounted))))))
      = \<lparr>busy = False, errorText = ''Bad server'',
         hsUrl = ''https://other.example'', isUrl = ''https://vector.im''\<rparr>
   \<and> state (settle 1 (Inr otherExample) (settle 0 (Inl badServer)
        (snd (validateAndApplyServer ''https://other.example'' ''https://vector.im''
           (snd (validateAndApplyServer ''https://custom.example'' ''https://vector.im'' mounted))))))
      = \<lparr>busy = False, errorText = '''',
         hsUrl = ''https://other.example'', isUrl = ''https://vector.im''\<rparr>"
proof -
  have h1: "\<not> (ValidatedServerConfig.hsUrl (validated_server_config mounted) = ''https://custom.example''
       \<and> ValidatedServerConfig.isUrl (validated_server_config mounted) = ''https://vector.im'')"
    by (simp add: example_defs)
  have h2: "\<not> (ValidatedServerConfig.hsUrl (validated_server_config mounted) = ''https://other.example''
       \<and> ValidatedServerConfig.isUrl (validated_server_config mounted) = ''https://vector.im'')"
    by (simp add: example_defs)
  have p: "0 = nextPromiseId mounted" "1 = Suc (nextPromiseId mounted)"
    by (simp_all add: example_defs)
  have m: "errorText (state (snd (validateAndApplyServer_settled (Inl badServer) mounted))) = ''Bad server''"
    "errorText (state (snd (validateAndApplyServer_settled (Inr otherExample) mounted))) = ''''"
    by (simp_all add: validateAndApplyServer_settled_def console_error_def onServerConfigChange_def
        badServer_def)
  from last_settled_attempt_wins [OF h1 h2 refl p, of "Inr otherExample" "Inl badServer"]
  show ?thesis using h1 h2 by (simp only: m) blast
qed

text \<open>
  C4 as stated fails when the attempt started first settles last. In the first race the
  attempt started last succeeds, and the error of the earlier attempt is what the user is
  left with. In the second race both succeed, and the last call of the owner callback
  carries the configuration of the earlier attempt.
\<close>

theorem stale_attempt_overwrites_counterexample:
  "discoveries (trace raceFailsLast)
     = [(0, ''https://custom.example'', ''https://vector.im''),
        (1, ''https://other.example'', ''https://vector.im'')]
   \<and> configChanges (trace raceFailsLast) = [otherExample]
   \<and> inflight raceFailsLast = []
   \<and> errorText (state raceFailsLast) = ''Bad server''
   \<and> errorText (state raceFailsLast) \<noteq> ''''
   \<and> discoveries (trace raceSucceedsLast) = discoveries (trace raceFailsLast)
   \<and> inflight raceSucceedsLast = []
   \<and> configChanges (trace raceSucceedsLast) = [otherExample, customExample]
   \<and> last (configChanges (trace raceSucceedsLast)) \<noteq> otherExample"
  by (simp add: raceFailsLast_def raceSucceedsLast_def run_defs example_defs)

section \<open>The busy flag and the error text\<close>

text \<open>
  C5. \<open>busy\<close> implies an empty \<open>errorText\<close>: in the component the constructor
  builds; after every event, if before it; after the synchronous part of
  \<open>validateAndApplyServer\<close>, on the fast and on the slow path, whatever the component
  before (the one place that sets \<open>busy\<close> clears \<open>errorText\<close> in the same
  \<open>setState\<close>); after a settlement, successful or failed, which clears \<open>busy\<close>; and
  so in every component reachable from a constructed one.
\<close>

theorem busy_implies_no_error:
  "(busy (state (constructor p dc)) \<longrightarrow> errorText (state (constructor p dc)) = '''')
   \<and> ((busy (state w) \<longrightarrow> errorText (state w) = '''')
       \<longrightarrow> (busy (state (step w ev)) \<longrightarrow> errorText (state (step w ev)) = ''''))
   \<and> (busy (state (snd (validateAndApplyServer hs is w)))
       \<longrightarrow> errorText (state (snd (validateAndApplyServer hs is w))) = '''')
   \<and> \<not> busy (state (snd (validateAndApplyServer_settled r w)))
   \<and> (reachable w' \<longrightarrow> busy (state w') \<longrightarrow> errorText (state w') = '''')"
  using step_busy_inv [of w ev] validateAndApplyServer_busy_inv [of hs "is" w]
    validateAndApplyServer_settled_not_busy [of r w] reachable_busy_inv [of w']
  by (simp add: constructor_def)

text \<open>A reachable component that is busy.\<close>

theorem busy_implies_no_error_witness:
  "reachable validating \<and> busy (state validating) \<and> errorText (state validating) = ''''"
proof -
  have r: "reachable validating"
    unfolding validating_def mounted_def by (intro reachable.intros)
  have b: "busy (state validating)" by (simp add: validating_simps)
  from busy_implies_no_error [of "propsOf matrixOrg" matrixOrg mounted "ReceiveProps (propsOf customExample)"
        "''https://custom.example''" "''https://vector.im''" "Inl badServer" validating] r b
  have "errorText (state validating) = ''''" by blast
  with r b show ?thesis by simp
qed

section \<open>Debounce\<close>

text \<open>
  C6, as amended. In a reachable component, the blur of a field removes from the queue the
  timeout that field's handle names, queues a new one due after \<open>delayTimeMs\<close>, and
  stores its identifier in the handle. When the same field is blurred twice before the
  first timeout has fired, the first timeout never fires and the second, once due, runs
  \<open>validateServer\<close> once. The two blurs and the two timeouts together add one entry to
  the trace: the discovery call with the URLs of the state when these are not both the
  default ones (and the component is left busy), the owner callback with the default
  configuration when they are (and the component is left idle, no discovery call made).
\<close>

theorem blur_debounces:
  assumes "reachable w"
  shows "timers (onHomeserverBlur w)
           = filter (\<lambda>tm. Some (fst tm) \<noteq> hsTimeoutId w) (timers w)
             @ [(nextTimeoutId w, now w + delayTimeMs (props w))]
       \<and> hsTimeoutId (onHomeserverBlur w) = Some (nextTimeoutId w)
       \<and> timers (onIdentityServerBlur w)
           = filter (\<lambda>tm. Some (fst tm) \<noteq> isTimeoutId w) (timers w)
             @ [(nextTimeoutId w, now w + delayTimeMs (props w))]
       \<and> isTimeoutId (onIdentityServerBlur w) = Some (nextTimeoutId w)
       \<and> (delayTimeMs (props w) \<le> d2 \<longrightarrow>
            trace (run [HomeserverBlur, Elapse d1, HomeserverBlur, Elapse d2,
                               Timeout (nextTimeoutId w), Timeout (Suc (nextTimeoutId w))] w)
            = trace w
              @ (if ValidatedServerConfig.hsUrl (validated_server_config w) = State.hsUrl (state w)
                    \<and> ValidatedServerConfig.isUrl (validated_server_config w) = State.isUrl (state w)
                 then [OnServerConfigChange (validated_server_config w)]
                 else [Discovery (nextPromiseId w) (State.hsUrl (state w)) (State.isUrl (state w))])
            \<and> state (run [HomeserverBlur, Elapse d1, HomeserverBlur, Elapse d2,
                               Timeout (nextTimeoutId w), Timeout (Suc (nextTimeoutId w))] w)
            = (state w)\<lparr>busy := \<not> (ValidatedServerConfig.hsUrl (validated_server_config w) = State.hsUrl (state w)
                    \<and> ValidatedServerConfig.isUrl (validated_server_config w) = State.isUrl (state w)),
                         errorText := ''''\<rparr>)
       \<and> (delayTimeMs (props w) \<le> d2 \<longrightarrow>
            trace (run [IdentityServerBlur, Elapse d1, IdentityServerBlur, Elapse d2,
                               Timeout (nextTimeoutId w), Timeout (Suc (nextTimeoutId w))] w)
            = trace w
              @ (if ValidatedServerConfig.hsUrl (validated_server_config w) = State.hsUrl (state w)
                    \<and> ValidatedServerConfig.isUrl (validated_server_config w) = State.isUrl (state w)
                 then [OnServerConfigChange (validated_server_config w)]
                 else [Discovery (nextPromiseId w) (State.hsUrl (state w)) (State.isUrl (state w))])
            \<and> state (run [IdentityServerBlur, Elapse d1, IdentityServerBlur, Elapse d2,
                               Timeout (nextTimeoutId w), Timeout (Suc (nextTimeoutId w))] w)
            = (state w)\<lparr>busy := \<not> (ValidatedServerConfig.hsUrl (validated_server_config w) = State.hsUrl (state w)
                    \<and> ValidatedServerConfig.isUrl (validated_server_config w) = State.isUrl (state w)),
                         errorText := ''''\<rparr>)"
proof -
  let ?n = "nextTimeoutId w"
  let ?due = "now w + d1 + delayTimeMs (props w)"
  let ?H = "step (step (step (step w HomeserverBlur) (Elapse d1)) HomeserverBlur) (Elapse d2)"
  let ?I = "step (step (step (step w IdentityServerBlur) (Elapse d1)) IdentityServerBlur) (Elapse d2)"
  from assms have ids: "0 < ?n" "hsTimeoutId w \<noteq> Some 0" "isTimeoutId w \<noteq> Some 0"
    using reachable_timeout_ids by blast+
  have runH: "run [HomeserverBlur, Elapse d1, HomeserverBlur, Elapse d2, Timeout ?n, Timeout (Suc ?n)] w
              = step (step ?H (Timeout ?n)) (Timeout (Suc ?n))"
    by (simp only: run_def foldl_Cons foldl_Nil)
  have runI: "run [IdentityServerBlur, Elapse d1, IdentityServerBlur, Elapse d2, Timeout ?n, Timeout (Suc ?n)] w
              = step (step ?I (Timeout ?n)) (Timeout (Suc ?n))"
    by (simp only: run_def foldl_Cons foldl_Nil)
  have H: "timers ?H = filter (\<lambda>tm. fst tm \<noteq> ?n)
                         (filter (\<lambda>tm. Some (fst tm) \<noteq> hsTimeoutId w) (timers w)) @ [(Suc ?n, ?due)]"
    "now ?H = now w + d1 + d2" "trace ?H = trace w" "state ?H = state w"
    "validated_server_config ?H = validated_server_config w" "nextPromiseId ?H = nextPromiseId w"
    by (simp_all add: homeserver_blur_twice [OF ids(1) ids(2)] del: step.simps)
  have I: "timers ?I = filter (\<lambda>tm. fst tm \<noteq> ?n)
                         (filter (\<lambda>tm. Some (fst tm) \<noteq> isTimeoutId w) (timers w)) @ [(Suc ?n, ?due)]"
    "now ?I = now w + d1 + d2" "trace ?I = trace w" "state ?I = state w"
    "validated_server_config ?I = validated_server_config w" "nextPromiseId ?I = nextPromiseId w"
    by (simp_all add: identity_blur_twice [OF ids(1) ids(3)] del: step.simps)
  have hs: "trace (run [HomeserverBlur, Elapse d1, HomeserverBlur, Elapse d2,
                               Timeout (nextTimeoutId w), Timeout (Suc (nextTimeoutId w))] w)
            = trace w
              @ (if ValidatedServerConfig.hsUrl (validated_server_config w) = State.hsUrl (state w)
                    \<and> ValidatedServerConfig.isUrl (validated_server_config w) = State.isUrl (state w)
                 then [OnServerConfigChange (validated_server_config w)]
                 else [Discovery (nextPromiseId w) (State.hsUrl (state w)) (State.isUrl (state w))])
            \<and> state (run [HomeserverBlur, Elapse d1, HomeserverBlur, Elapse d2,
                               Timeout (nextTimeoutId w), Timeout (Suc (nextTimeoutId w))] w)
            = (state w)\<lparr>busy := \<not> (ValidatedServerConfig.hsUrl (validated_server_config w) = State.hsUrl (state w)
                    \<and> ValidatedServerConfig.isUrl (validated_server_config w) = State.isUrl (state w)),
                         errorText := ''''\<rparr>"
    if "delayTimeMs (props w) \<le> d2"
  proof -
    from that have "?due \<le> now w + d1 + d2" by simp
    then have "?due \<le> now ?H" by (simp only: H(2))
    from second_timeout_validates [OF H(1) this] show ?thesis
      by (simp only: runH H(3-6))
  qed
  have "is": "trace (run [IdentityServerBlur, Elapse d1, IdentityServerBlur, Elapse d2,
                               Timeout (nextTimeoutId w), Timeout (Suc (nextTimeoutId w))] w)
            = trace w
              @ (if ValidatedServerConfig.hsUrl (validated_server_config w) = State.hsUrl (state w)
                    \<and> ValidatedServerConfig.isUrl (validated_server_config w) = State.isUrl (state w)
                 then [OnServerConfigChange (validated_server_config w)]
                 else [Discovery (nextPromiseId w) (State.hsUrl (state w)) (State.isUrl (state w))])
            \<and> state (run [IdentityServerBlur, Elapse d1, IdentityServerBlur, Elapse d2,
                               Timeout (nextTimeoutId w), Timeout (Suc (nextTimeoutId w))] w)
            = (state w)\<lparr>busy := \<not> (ValidatedServerConfig.hsUrl (validated_server_config w) = State.hsUrl (state w)
                    \<and> ValidatedServerConfig.isUrl (validated_server_config w) = State.isUrl (state w)),
                         errorText := ''''\<rparr>"
    if "delayTimeMs (props w) \<le> d2"
  proof -
    from that have "?due \<le> now w + d1 + d2" by simp
    then have "?due \<le> now ?I" by (simp only: I(2))
    from second_timeout_validates [OF I(1) this] show ?thesis
      by (simp only: runI I(3-6))
  qed
  have blur: "timers (onHomeserverBlur w)
           = filter (\<lambda>tm. Some (fst tm) \<noteq> hsTimeoutId w) (timers w)
             @ [(nextTimeoutId w, now w + delayTimeMs (props w))]"
     "hsTimeoutId (onHomeserverBlur w) = Some (nextTimeoutId w)"
     "timers (onIdentityServerBlur w)
           = filter (\<lambda>tm. Some (fst tm) \<noteq> isTimeoutId w) (timers w)
             @ [(nextTimeoutId w, now w + delayTimeMs (props w))]"
     "isTimeoutId (onIdentityServerBlur w) = Some (nextTimeoutId w)"
    using ids by (simp_all add: onHomeserverBlur_eq onIdentityServerBlur_eq)
  from blur hs "is" show ?thesis by blast
qed

text \<open>
  Two blurs of the homeserver field, 100 ms apart, after a custom URL was typed; and two
  blurs of the identity server field on the default URLs.
\<close>

theorem blur_debounces_witness:
  "reachable debouncedEdited
   \<and> delayTimeMs (props debouncedEdited) \<le> 500
   \<and> timers (onHomeserverBlur debouncedEdited) = [(1, 500)]
   \<and> trace (run [HomeserverBlur, Elapse 100, HomeserverBlur, Elapse 500,
                  Timeout 1, Timeout 2] debouncedEdited)
      = [Discovery 0 ''https://custom.example'' ''https://vector.im'']
   \<and> busy (state (run [HomeserverBlur, Elapse 100, HomeserverBlur, Elapse 500,
                        Timeout 1, Timeout 2] debouncedEdited))
   \<and> reachable debounced
   \<and> delayTimeMs (props debounced) \<le> 500
   \<and> trace (run [IdentityServerBlur, Elapse 100, IdentityServerBlur, Elapse 500,
                  Timeout 1, Timeout 2] debounced)
      = [OnServerConfigChange matrixOrg]
   \<and> \<not> busy (state (run [IdentityServerBlur, Elapse 100, IdentityServerBlur, Elapse 500,
                        Timeout 1, Timeout 2] debounced))"
proof -
  have r: "reachable debouncedEdited"
    unfolding debouncedEdited_def debounced_def by (intro reachable.intros)
  have r': "reachable debounced"
    unfolding debounced_def by (intro reachable.intros)
  have d: "delayTimeMs (props debouncedEdited) \<le> 500" "delayTimeMs (props debounced) \<le> 500"
    by (simp_all add: debouncedEdited_simps debounced_simps)
  have e: "timers debouncedEdited = []" "hsTimeoutId debouncedEdited = None" "now debouncedEdited = 0"
    by (simp_all add: debouncedEdited_def debounced_def onHomeserverChange_def example_defs)
  from blur_debounces [OF r, of 500 100] d(1)
  have a: "timers (onHomeserverBlur debouncedEdited)
          = filter (\<lambda>tm. Some (fst tm) \<noteq> hsTimeoutId debouncedEdited) (timers debouncedEdited)
            @ [(nextTimeoutId debouncedEdited, now debouncedEdited + delayTimeMs (props debouncedEdited))]
        \<and> trace (run [HomeserverBlur, Elapse 100, HomeserverBlur, Elapse 500,
              Timeout (nextTimeoutId debouncedEdited), Timeout (Suc (nextTimeoutId debouncedEdited))] debouncedEdited)
          = trace debouncedEdited
            @ (if ValidatedServerConfig.hsUrl (validated_server_config debouncedEdited) = State.hsUrl (state debouncedEdited)
                  \<and> ValidatedServerConfig.isUrl (validated_server_config debouncedEdited) = State.isUrl (state debouncedEdited)
               then [OnServerConfigChange (validated_server_config debouncedEdited)]
               else [Discovery (nextPromiseId debouncedEdited) (State.hsUrl (state debouncedEdited))
                       (State.isUrl (state debouncedEdited))])
        \<and> state (run [HomeserverBlur, Elapse 100, HomeserverBlur, Elapse 500,
              Timeout (nextTimeoutId debouncedEdited), Timeout (Suc (nextTimeoutId debouncedEdited))] debouncedEdited)
          = (state debouncedEdited)
              \<lparr>busy := \<not> (ValidatedServerConfig.hsUrl (validated_server_config debouncedEdited) = State.hsUrl (state debouncedEdited)
                          \<and> ValidatedServerConfig.isUrl (validated_server_config debouncedEdited) = State.isUrl (state debouncedEdited)),
               errorText := ''''\<rparr>"
    by blast
  from blur_debounces [OF r', of 500 100] d(2)
  have b: "trace (run [IdentityServerBlur, Elapse 100, IdentityServerBlur, Elapse 500,
              Timeout (nextTimeoutId debounced), Timeout (Suc (nextTimeoutId debounced))] debounced)
          = trace debounced
            @ (if ValidatedServerConfig.hsUrl (validated_server_config debounced) = State.hsUrl (state debounced)
                  \<and> ValidatedServerConfig.isUrl (validated_server_config debounced) = State.isUrl (state debounced)
               then [OnServerConfigChange (validated_server_config debounced)]
               else [Discovery (nextPromiseId debounced) (State.hsUrl (state debounced))
                       (State.isUrl (state debounced))])
        \<and> state (run [IdentityServerBlur, Elapse 100, IdentityServerBlur, Elapse 500,
              Timeout (nextTimeoutId debounced), Timeout (Suc (nextTimeoutId debounced))] debounced)
          = (state debounced)
              \<lparr>busy := \<not> (ValidatedServerConfig.hsUrl (validated_server_config debounced) = State.hsUrl (state debounced)
                          \<and> ValidatedServerConfig.isUrl (validated_server_config debounced) = State.isUrl (state debounced)),
               errorText := ''''\<rparr>"
    by blast
  from a b show ?thesis
    using r r' d
    by (simp add: debouncedEdited_simps debounced_simps e numeral_2_eq_2 matrixOrg_def)
qed

text \<open>
  C6 as stated fails when the URLs in the state are the default ones: the one validation
  that runs takes the fast path, and the discovery function is not called at all.
\<close>

theorem blur_on_default_urls_counterexample:
  "discoveries (trace (run [HomeserverBlur, Elapse 100, HomeserverBlur, Elapse 500,
                            Timeout 1, Timeout 2] debounced)) = []
   \<and> configChanges (trace (run [HomeserverBlur, Elapse 100, HomeserverBlur, Elapse 500,
                            Timeout 1, Timeout 2] debounced)) = [matrixOrg]
   \<and> length (discoveries (trace (run [HomeserverBlur, Elapse 100, HomeserverBlur, Elapse 500,
                            Timeout 1, Timeout 2] debounced))) \<noteq> 1"
  by (simp add: debounced_def run_defs blur_defs example_defs)

section \<open>External configuration changes\<close>

text \<open>
  C7. The claim fails on the fast path. The user has typed a custom homeserver and the
  owner then passes the default configuration: the hook calls \<open>validateAndApplyServer\<close>,
  which calls the owner callback and leaves the typed URL in the state, where the slow path
  would have stored the new one. The state still differs from the new configuration, so
  passing the same configuration again validates again.
\<close>

theorem external_default_config_not_adopted:
  "ValidatedServerConfig.hsUrl (serverConfig (propsOf matrixOrg)) = ''https://matrix.org''
   \<and> State.hsUrl (state edited) = ''https://custom.example''
   \<and> State.hsUrl (state (componentWillReceiveProps (propsOf matrixOrg) edited)) = ''https://custom.example''
   \<and> trace (componentWillReceiveProps (propsOf matrixOrg) edited) = [OnServerConfigChange matrixOrg]
   \<and> trace (componentWillReceiveProps (propsOf matrixOrg)
              (componentWillReceiveProps (propsOf matrixOrg) edited))
      = [OnServerConfigChange matrixOrg, OnServerConfigChange matrixOrg]"
  by (simp add: componentWillReceiveProps_def validateAndApplyServer_def onServerConfigChange_def
      edited_simps Let_def) (simp add: example_defs)

text \<open>
  C10. On the fast path the state changes in \<open>busy\<close> and \<open>errorText\<close> only. When the
  configuration the owner passes has the default URLs, the URLs in the state after the hook
  are the ones before it, whether or not they are the default ones.
\<close>

theorem default_urls_leave_edits:
  "state (snd (validateAndApplyServer (ValidatedServerConfig.hsUrl (validated_server_config w))
                 (ValidatedServerConfig.isUrl (validated_server_config w)) w))
   = (state w)\<lparr>busy := False, errorText := ''''\<rparr>
   \<and> State.hsUrl (state (snd (validateAndApplyServer (ValidatedServerConfig.hsUrl (validated_server_config w))
                 (ValidatedServerConfig.isUrl (validated_server_config w)) w))) = State.hsUrl (state w)
   \<and> State.isUrl (state (snd (validateAndApplyServer (ValidatedServerConfig.hsUrl (validated_server_config w))
                 (ValidatedServerConfig.isUrl (validated_server_config w)) w))) = State.isUrl (state w)
   \<and> (ValidatedServerConfig.hsUrl (serverConfig newProps) = ValidatedServerConfig.hsUrl (validated_server_config w)
      \<and> ValidatedServerConfig.isUrl (serverConfig newProps) = ValidatedServerConfig.isUrl (validated_server_config w)
      \<longrightarrow> State.hsUrl (state (componentWillReceiveProps newProps w)) = State.hsUrl (state w)
        \<and> State.isUrl (state (componentWillReceiveProps newProps w)) = State.isUrl (state w))"
  by (simp add: validateAndApplyServer_def onServerConfigChange_def componentWillReceiveProps_def Let_def)

text \<open>The default configuration passed to a component whose homeserver field was edited.\<close>

theorem default_urls_leave_edits_witness:
  "ValidatedServerConfig.hsUrl (serverConfig (propsOf matrixOrg)) = ValidatedServerConfig.hsUrl (validated_server_config edited)
   \<and> ValidatedServerConfig.isUrl (serverConfig (propsOf matrixOrg)) = ValidatedServerConfig.isUrl (validated_server_config edited)
   \<and> ValidatedServerConfig.hsUrl (serverConfig (propsOf matrixOrg)) \<noteq> State.hsUrl (state edited)
   \<and> State.hsUrl (state (componentWillReceiveProps (propsOf matrixOrg) edited)) = ''https://custom.example''
   \<and> State.isUrl (state (componentWillReceiveProps (propsOf matrixOrg) edited)) = ''https://vector.im''"
proof -
  have h: "ValidatedServerConfig.hsUrl (serverConfig (propsOf matrixOrg)) = ValidatedServerConfig.hsUrl (validated_server_config edited)
   \<and> ValidatedServerConfig.isUrl (serverConfig (propsOf matrixOrg)) = ValidatedServerConfig.isUrl (validated_server_config edited)"
    by (simp add: edited_simps) (simp add: example_defs)
  have d: "ValidatedServerConfig.hsUrl (serverConfig (propsOf matrixOrg)) \<noteq> State.hsUrl (state edited)"
    by (simp add: edited_simps) (simp add: example_defs)
  from default_urls_leave_edits [of edited "propsOf matrixOrg"] h
  have "State.hsUrl (state (componentWillReceiveProps (propsOf matrixOrg) edited)) = State.hsUrl (state edited)
        \<and> State.isUrl (state (componentWillReceiveProps (propsOf matrixOrg) edited)) = State.isUrl (state edited)"
    by blast
  with h d show ?thesis by (simp add: edited_simps)
qed

section \<open>Submit\<close>

text \<open>
  C8. \<open>onSubmit\<close> calls \<open>validateServer\<close>, that is \<open>validateAndApplyServer\<close> on the
  URLs of the state, and suspends; the equations give the whole component it leaves on the
  fast and on the slow path. On the fast path the rest of \<open>onSubmit\<close> is queued with the
  default configuration. On the slow path it is queued when the attempt settles, with
  \<open>null\<close> when the attempt failed and with the result when it succeeded; the settlement
  of an attempt that no submit awaits queues nothing, and a promise settles once. When the
  queued rest runs it leaves the queue; with \<open>null\<close> it does nothing else, with a
  configuration it calls the after-submit callback if the props of that moment supply one.
  So one submit, followed to its end, calls the after-submit callback once when validation
  gave a configuration and the callback is supplied, and not at all otherwise; running the
  queue again adds nothing.
\<close>

theorem submit_awaits_validation:
  "validateServer w = validateAndApplyServer (State.hsUrl (state w)) (State.isUrl (state w)) w
   \<and> (ValidatedServerConfig.hsUrl (validated_server_config w) = State.hsUrl (state w)
        \<and> ValidatedServerConfig.isUrl (validated_server_config w) = State.isUrl (state w)
      \<longrightarrow> onSubmit w
          = w\<lparr>state := (state w)\<lparr>busy := False, errorText := ''''\<rparr>,
              trace := trace w @ [OnServerConfigChange (validated_server_config w)],
              resuming := resuming w @ [Some (validated_server_config w)]\<rparr>)
   \<and> (\<not> (ValidatedServerConfig.hsUrl (validated_server_config w) = State.hsUrl (state w)
          \<and> ValidatedServerConfig.isUrl (validated_server_config w) = State.isUrl (state w))
      \<longrightarrow> onSubmit w
          = w\<lparr>state := (state w)\<lparr>busy := True, errorText := ''''\<rparr>,
              nextPromiseId := Suc (nextPromiseId w),
              trace := trace w @ [Discovery (nextPromiseId w) (State.hsUrl (state w))
                                    (State.isUrl (state w))],
              inflight := inflight w @ [nextPromiseId w],
              submitting := submitting w @ [nextPromiseId w]\<rparr>)
   \<and> (p \<in> set (inflight w') \<and> p \<in> set (submitting w')
      \<longrightarrow> settle p (Inl e) w'
          = (snd (validateAndApplyServer_settled (Inl e) w'))
              \<lparr>inflight := removeAll p (inflight w'),
                submitting := removeAll p (submitting w'),
                resuming := resuming w' @ [None]\<rparr>
        \<and> settle p (Inr c) w'
          = (snd (validateAndApplyServer_settled (Inr c) w'))
              \<lparr>inflight := removeAll p (inflight w'),
                submitting := removeAll p (submitting w'),
                resuming := resuming w' @ [Some c]\<rparr>)
   \<and> (p \<in> set (inflight w') \<and> p \<notin> set (submitting w')
      \<longrightarrow> settle p r w'
          = (snd (validateAndApplyServer_settled r w'))\<lparr>inflight := removeAll p (inflight w')\<rparr>)
   \<and> (p \<notin> set (inflight w') \<longrightarrow> settle p r w' = w')
   \<and> (resuming w'' = [] \<longrightarrow> resume w'' = w'')
   \<and> (resuming w'' = None # rest \<longrightarrow> resume w'' = w''\<lparr>resuming := rest\<rparr>)
   \<and> (resuming w'' = Some c # rest
      \<longrightarrow> resume w''
          = (if onAfterSubmit (props w'')
             then w''\<lparr>resuming := rest, trace := trace w'' @ [OnAfterSubmit]\<rparr>
             else w''\<lparr>resuming := rest\<rparr>))
   \<and> (resuming w = []
      \<longrightarrow> afterSubmits (trace (run [Submit, Resume, Resume] w))
          = afterSubmits (trace w)
            + (if ValidatedServerConfig.hsUrl (validated_server_config w) = State.hsUrl (state w)
                  \<and> ValidatedServerConfig.isUrl (validated_server_config w) = State.isUrl (state w)
                  \<and> onAfterSubmit (props w)
               then 1 else 0))
   \<and> (resuming w = []
       \<and> \<not> (ValidatedServerConfig.hsUrl (validated_server_config w) = State.hsUrl (state w)
            \<and> ValidatedServerConfig.isUrl (validated_server_config w) = State.isUrl (state w))
      \<longrightarrow> afterSubmits (trace (run [Submit, Settle (nextPromiseId w) (Inl e), Resume, Resume] w))
          = afterSubmits (trace w)
        \<and> afterSubmits (trace (run [Submit, Settle (nextPromiseId w) (Inr c), Resume, Resume] w))
          = afterSubmits (trace w) + (if onAfterSubmit (props w) then 1 else 0))"
  by (auto simp add: run_def method_defs afterSubmits_append split: sum.split)

text \<open>
  A submit on the default URLs, also with a re-render that takes the after-submit callback
  away before the rest of \<open>onSubmit\<close> runs; a submit on a custom homeserver, failing and
  succeeding; and the settlement of an attempt started by the owner, not by a submit.
\<close>

theorem submit_awaits_validation_witness:
  "(ValidatedServerConfig.hsUrl (validated_server_config mounted) = State.hsUrl (state mounted)
     \<and> ValidatedServerConfig.isUrl (validated_server_config mounted) = State.isUrl (state mounted))
   \<and> resuming mounted = []
   \<and> resume mounted = mounted
   \<and> trace (onSubmit mounted) = [OnServerConfigChange matrixOrg]
   \<and> resuming (onSubmit mounted) = Some matrixOrg # []
   \<and> trace (resume (onSubmit mounted)) = [OnServerConfigChange matrixOrg, OnAfterSubmit]
   \<and> afterSubmits (trace (run [Submit, Resume, Resume] mounted)) = 1
   \<and> trace (run [Submit, ReceiveProps noAfterSubmit, Resume] mounted) = [OnServerConfigChange matrixOrg]
   \<and> \<not> (ValidatedServerConfig.hsUrl (validated_server_config edited) = State.hsUrl (state edited)
         \<and> ValidatedServerConfig.isUrl (validated_server_config edited) = State.isUrl (state edited))
   \<and> resuming edited = []
   \<and> 0 \<in> set (inflight (onSubmit edited)) \<and> 0 \<in> set (submitting (onSubmit edited))
   \<and> resuming (settle 0 (Inl badServer) (onSubmit edited)) = None # []
   \<and> trace (resume (settle 0 (Inl badServer) (onSubmit edited)))
      = [Discovery 0 ''https://custom.example'' ''https://vector.im'', ConsoleError badServer]
   \<and> afterSubmits (trace (run [Submit, Settle 0 (Inl badServer), Resume, Resume] edited)) = 0
   \<and> afterSubmits (trace (run [Submit, Settle 0 (Inr customExample), Resume, Resume] edited)) = 1
   \<and> 0 \<in> set (inflight validating) \<and> 0 \<notin> set (submitting validating)
   \<and> resuming (settle 0 (Inr customExample) validating) = []
   \<and> 0 \<notin> set (inflight mounted)
   \<and> settle 0 (Inr customExample) mounted = mounted"
proof -
  let ?failed = "settle 0 (Inl badServer) (onSubmit edited)"
  have d: "ValidatedServerConfig.hsUrl (validated_server_config mounted) = State.hsUrl (state mounted)
     \<and> ValidatedServerConfig.isUrl (validated_server_config mounted) = State.isUrl (state mounted)"
    by (simp add: mounted_simps) (simp add: matrixOrg_def)
  have n: "\<not> (ValidatedServerConfig.hsUrl (validated_server_config edited) = State.hsUrl (state edited)
         \<and> ValidatedServerConfig.isUrl (validated_server_config edited) = State.isUrl (state edited))"
    by (simp add: edited_simps) (simp add: matrixOrg_def)
  have e: "resuming mounted = []" "resuming edited = []"
    by (simp_all add: edited_def onHomeserverChange_def example_defs)
  have q: "0 \<in> set (inflight (onSubmit edited)) \<and> 0 \<in> set (submitting (onSubmit edited))"
    by (simp add: onSubmit_def validateServer_def validateAndApplyServer_def
        validateServerConfigWithStaticUrls_def Let_def edited_simps matrixOrg_def)
  have v: "0 \<in> set (inflight validating) \<and> 0 \<notin> set (submitting validating)"
    "resuming validating = []" "props validating = propsOf customExample"
    by (simp_all add: validating_def receiveProps_def componentWillReceiveProps_def
        validateAndApplyServer_def validateServerConfigWithStaticUrls_def Let_def example_defs)
  have s: "resuming (onSubmit mounted) = Some matrixOrg # []" "props (onSubmit mounted) = propsOf matrixOrg"
    by (simp_all add: onSubmit_def validateServer_def validateAndApplyServer_def
        onServerConfigChange_def Let_def mounted_simps e matrixOrg_def)
  have f: "resuming ?failed = None # []"
    by (simp add: settle_def validateAndApplyServer_settled_def console_error_def
        onSubmit_def validateServer_def validateAndApplyServer_def
        validateServerConfigWithStaticUrls_def Let_def edited_simps e matrixOrg_def)
  have x: "trace (run [Submit, ReceiveProps noAfterSubmit, Resume] mounted) = [OnServerConfigChange matrixOrg]"
    by (simp add: run_defs noAfterSubmit_def example_defs)
  note T1 = submit_awaits_validation [where w = mounted and w'' = "onSubmit mounted"
      and c = matrixOrg and rest = "[]" and p = 0 and w' = validating and r = "Inr customExample"
      and e = badServer]
  note T2 = submit_awaits_validation [where w = edited and w'' = ?failed
      and c = customExample and rest = "[]" and p = 0 and w' = "onSubmit edited" and r = "Inl badServer"
      and e = badServer]
  note T3 = submit_awaits_validation [where w = mounted and w'' = mounted
      and c = matrixOrg and rest = "[]" and p = 0 and w' = validating and r = "Inr customExample"
      and e = badServer]
  from T1 d e(1) have a1: "onSubmit mounted
          = mounted\<lparr>state := (state mounted)\<lparr>busy := False, errorText := ''''\<rparr>,
              trace := trace mounted @ [OnServerConfigChange (validated_server_config mounted)],
              resuming := resuming mounted @ [Some (validated_server_config mounted)]\<rparr>"
    by blast
  from T1 s(1) have a2: "resume (onSubmit mounted)
          = (if onAfterSubmit (props (onSubmit mounted))
             then (onSubmit mounted)\<lparr>resuming := [], trace := trace (onSubmit mounted) @ [OnAfterSubmit]\<rparr>
             else (onSubmit mounted)\<lparr>resuming := []\<rparr>)"
    by blast
  from T1 d e(1) have a3: "afterSubmits (trace (run [Submit, Resume, Resume] mounted))
          = afterSubmits (trace mounted)
            + (if ValidatedServerConfig.hsUrl (validated_server_config mounted) = State.hsUrl (state mounted)
                  \<and> ValidatedServerConfig.isUrl (validated_server_config mounted) = State.isUrl (state mounted)
                  \<and> onAfterSubmit (props mounted)
               then 1 else 0)"
    by blast
  from T1 v(1) have a4: "settle 0 (Inr customExample) validating
          = (snd (validateAndApplyServer_settled (Inr customExample) validating))
              \<lparr>inflight := removeAll 0 (inflight validating)\<rparr>"
    by blast
  from T2 f have b1: "resume ?failed = ?failed\<lparr>resuming := []\<rparr>"
    by blast
  from T2 n e(2) have b2:
    "afterSubmits (trace (run [Submit, Settle (nextPromiseId edited) (Inl badServer), Resume, Resume] edited))
          = afterSubmits (trace edited)
     \<and> afterSubmits (trace (run [Submit, Settle (nextPromiseId edited) (Inr customExample), Resume, Resume] edited))
          = afterSubmits (trace edited) + (if onAfterSubmit (props edited) then 1 else 0)"
    by blast
  from T3 e(1) have c1: "resume mounted = mounted"
    by blast
  have m: "0 \<notin> set (inflight mounted)"
    by (simp add: mounted_simps)
  from submit_awaits_validation [where w = mounted and w'' = mounted
      and c = matrixOrg and rest = "[]" and p = 0 and w' = mounted and r = "Inr customExample"
      and e = badServer] m
  have c2: "settle 0 (Inr customExample) mounted = mounted"
    by blast
  have t1: "trace (onSubmit mounted) = [OnServerConfigChange matrixOrg]"
    by (simp add: a1 mounted_simps)
  have t2: "trace (resume (onSubmit mounted)) = [OnServerConfigChange matrixOrg, OnAfterSubmit]"
    by (simp add: a2 s t1 propsOf_def)
  have t3: "afterSubmits (trace (run [Submit, Resume, Resume] mounted)) = 1"
    using d by (simp add: a3 mounted_simps propsOf_def)
  have t4: "resuming (settle 0 (Inr customExample) validating) = []"
    by (simp add: a4 settled_frame v validateAndApplyServer_settled_def onServerConfigChange_def)
  have t5: "trace (resume ?failed)
      = [Discovery 0 ''https://custom.example'' ''https://vector.im'', ConsoleError badServer]"
    by (simp add: b1)
       (simp add: settle_def validateAndApplyServer_settled_def console_error_def
        onSubmit_def validateServer_def validateAndApplyServer_def
        validateServerConfigWithStaticUrls_def Let_def edited_simps matrixOrg_def)
  have t6: "afterSubmits (trace (run [Submit, Settle 0 (Inl badServer), Resume, Resume] edited)) = 0"
    "afterSubmits (trace (run [Submit, Settle 0 (Inr customExample), Resume, Resume] edited)) = 1"
    using b2 by (simp_all add: edited_simps propsOf_def)
  from d e c1 t1 s(1) t2 t3 x n q f t5 t6 v(1) t4 m c2 show ?thesis
    by blast
qed

section \<open>Field changes\<close>

text \<open>
  C9. A change event of one field writes that field of the state and nothing else: the
  other URL, \<open>busy\<close> and \<open>errorText\<close> keep their values, and so does everything outside
  the state, in particular the trace (no discovery call, no callback), the promises in
  flight (no validation started) and the timer queue.
\<close>

theorem field_change_writes_one_field:
  "onHomeserverChange v w = w\<lparr>state := (state w)\<lparr>hsUrl := v\<rparr>\<rparr>
   \<and> onIdentityServerChange v w = w\<lparr>state := (state w)\<lparr>isUrl := v\<rparr>\<rparr>
   \<and> State.isUrl (state (onHomeserverChange v w)) = State.isUrl (state w)
   \<and> busy (state (onHomeserverChange v w)) = busy (state w)
   \<and> errorText (state (onHomeserverChange v w)) = errorText (state w)
   \<and> State.hsUrl (state (onHomeserverChange v w)) = v
   \<and> State.hsUrl (state (onIdentityServerChange v w)) = State.hsUrl (state w)
   \<and> busy (state (onIdentityServerChange v w)) = busy (state w)
   \<and> errorText (state (onIdentityServerChange v w)) = errorText (state w)
   \<and> State.isUrl (state (onIdentityServerChange v w)) = v
   \<and> trace (onHomeserverChange v w) = trace w
   \<and> trace (onIdentityServerChange v w) = trace w
   \<and> inflight (onHomeserverChange v w) = inflight w
   \<and> inflight (onIdentityServerChange v w) = inflight w
   \<and> timers (onHomeserverChange v w) = timers w
   \<and> timers (onIdentityServerChange v w) = timers w"
  by (simp add: onHomeserverChange_def onIdentityServerChange_def)

end
